theory Spec2Isabelle
  imports Complex_Main
begin

section \<open>The What-If scoring engine of \<^verbatim>\<open>WhatIfSection.tsx\<close>\<close>

text \<open>
  The TypeScript type \<^verbatim>\<open>number\<close> is read as \<^typ>\<open>real\<close>: the arithmetic of the
  source is taken exactly, without the rounding of IEEE doubles.  The one division whose
  divisor is not a non-zero literal, \<^verbatim>\<open>delta / roundedBaselineScore\<close>, returns a
  \<open>number\<close> that can also be an infinity or NaN, as a JavaScript division by zero does.
  A separate subsection reads the percent-change line in binary64 arithmetic; everything
  else is a statement about exact arithmetic.
\<close>

subsection \<open>Data\<close>

text \<open>The object held by the \<^verbatim>\<open>baseline\<close> state and built by \<^verbatim>\<open>adjustedValues\<close>.\<close>

record FactorValues =
  satisfaction :: real
  trainingHours :: real
  workHours :: real
  overtime :: real
  sickDays :: real

text \<open>
  Objects keyed like \<^verbatim>\<open>WEIGHTS\<close> (satisfaction, training, workHours, overtime,
  sickDays): the weight table and the two tables of factor scores.  The fields carry a
  prefix because the plain names are fields of \<^typ>\<open>FactorValues\<close> already.
\<close>

record Factors =
  f_satisfaction :: real
  f_training :: real
  f_workHours :: real
  f_overtime :: real
  f_sickDays :: real

text \<open>
  The five slider states.  Each is a one-element array in the source and is only ever read
  at index 0; a field here is that element.
\<close>

record Deltas =
  satisfactionDelta :: real
  trainingDelta :: real
  workHoursDelta :: real
  overtimeDelta :: real
  sickDaysDelta :: real

datatype Direction = positive | negative | neutral

datatype Category = Low | Medium | High

text \<open>
  What a JavaScript division can return: a finite value, \<^verbatim>\<open>Infinity\<close>,
  \<^verbatim>\<open>-Infinity\<close> or \<^verbatim>\<open>NaN\<close>.
\<close>

datatype number = Finite real | Infinity | NegInfinity | NaN

record ImpactEntry =
  factor :: string
  impact :: real
  direction :: Direction

record ScenarioResult =
  baselineScore :: real
  newScore :: real
  delta :: real
  percentChange :: number
  category :: Category
  impactBreakdown :: "ImpactEntry list"

text \<open>The optional fields of \<^verbatim>\<open>Scenario.adjustments\<close>; \<open>None\<close> is \<^verbatim>\<open>undefined\<close>.\<close>

record Adjustments =
  adj_satisfaction :: "real option"
  adj_training :: "real option"
  adj_workHours :: "real option"
  adj_overtime :: "real option"
  adj_sickDays :: "real option"

subsection \<open>Constants\<close>

definition WEIGHTS :: Factors where
  "WEIGHTS = \<lparr> f_satisfaction = 0.30, f_training = 0.25, f_workHours = 0.18,
               f_overtime = 0.15, f_sickDays = 0.12 \<rparr>"

text \<open>The initial value of the \<^verbatim>\<open>baseline\<close> state.\<close>

definition baseline0 :: FactorValues where
  "baseline0 = \<lparr> satisfaction = 3.8, trainingHours = 35, workHours = 43,
                 overtime = 10, sickDays = 5 \<rparr>"

text \<open>The \<^verbatim>\<open>adjustments\<close> of the first entry of \<^verbatim>\<open>presetScenarios\<close>, "Training Boost".\<close>

definition trainingBoost :: Adjustments where
  "trainingBoost = \<lparr> adj_satisfaction = None, adj_training = Some 20, adj_workHours = None,
                     adj_overtime = None, adj_sickDays = None \<rparr>"

subsection \<open>Rounding\<close>

text \<open>
  \<^verbatim>\<open>Math.round\<close>: the nearest integer, a tie going up (towards plus infinity).
\<close>

definition Math_round :: "real \<Rightarrow> real" where
  "Math_round x = of_int \<lfloor>x + 1 / 2\<rfloor>"

text \<open>
  The operator \<^verbatim>\<open>/\<close> with a divisor that may be zero: a non-zero dividend over zero is
  an infinity with the dividend's sign, zero over zero is \<^verbatim>\<open>NaN\<close>, and nothing is
  thrown.
\<close>

definition js_divide :: "real \<Rightarrow> real \<Rightarrow> number" where
  "js_divide x y =
     (if y \<noteq> 0 then Finite (x / y)
      else if x > 0 then Infinity else if x < 0 then NegInfinity else NaN)"

subsection \<open>The normalizer\<close>

text \<open>
  \<^verbatim>\<open>computeFactorScore\<close>.  The factor is the string the \<^verbatim>\<open>switch\<close> compares, so that
  the \<^verbatim>\<open>default\<close> branch is part of the model.
\<close>

definition computeFactorScore :: "string \<Rightarrow> real \<Rightarrow> real" where
  "computeFactorScore fac v =
     (if fac = ''satisfaction'' then max 0 (min 100 (((v - 1) / 4) * 100))
      else if fac = ''training'' then max 0 (min 100 ((v / 80) * 100))
      else if fac = ''workHours'' then
        (let deviation = \<bar>v - 40\<bar> in max 0 (min 100 (100 - (deviation * 2.5))))
      else if fac = ''overtime'' then max 0 (min 100 (100 - (v * 2.5)))
      else if fac = ''sickDays'' then max 0 (min 100 (100 - (v * 5)))
      else 50)"

text \<open>
  The object literal that the source builds three times (in \<^verbatim>\<open>computeOverallScore\<close> as
  \<^verbatim>\<open>scores\<close>, in \<^verbatim>\<open>runSimulation\<close> as \<^verbatim>\<open>baselineFactorScores\<close> and
  \<^verbatim>\<open>adjustedFactorScores\<close>).
\<close>

definition factorScores :: "FactorValues \<Rightarrow> Factors" where
  "factorScores vals =
     \<lparr> f_satisfaction = computeFactorScore ''satisfaction'' (satisfaction vals),
       f_training = computeFactorScore ''training'' (trainingHours vals),
       f_workHours = computeFactorScore ''workHours'' (workHours vals),
       f_overtime = computeFactorScore ''overtime'' (overtime vals),
       f_sickDays = computeFactorScore ''sickDays'' (sickDays vals) \<rparr>"

subsection \<open>The aggregator\<close>

definition computeOverallScore :: "FactorValues \<Rightarrow> real" where
  "computeOverallScore vals =
     (let scores = factorScores vals in
        f_satisfaction scores * f_satisfaction WEIGHTS +
        f_training scores * f_training WEIGHTS +
        f_workHours scores * f_workHours WEIGHTS +
        f_overtime scores * f_overtime WEIGHTS +
        f_sickDays scores * f_sickDays WEIGHTS)"

subsection \<open>Applying the slider deltas\<close>

text \<open>The memo \<^verbatim>\<open>adjustedValues\<close>, a function of the baseline and the five deltas.\<close>

definition adjustedValues :: "FactorValues \<Rightarrow> Deltas \<Rightarrow> FactorValues" where
  "adjustedValues baseline d =
     \<lparr> satisfaction = max 1 (min 5 (satisfaction baseline + satisfactionDelta d)),
       trainingHours = max 0 (min 100 (trainingHours baseline + trainingDelta d)),
       workHours = max 20 (min 60 (workHours baseline + workHoursDelta d)),
       overtime = max 0 (min 40 (overtime baseline + (overtime baseline * overtimeDelta d / 100))),
       sickDays = max 0 (min 20 (sickDays baseline + sickDaysDelta d)) \<rparr>"

text \<open>
  The slider state after \<^verbatim>\<open>applyPreset\<close>: every delta is cleared to 0, then each
  adjustment that is not \<^verbatim>\<open>undefined\<close> is stored.
\<close>

definition applyPreset :: "Adjustments \<Rightarrow> Deltas" where
  "applyPreset a =
     \<lparr> satisfactionDelta = (case adj_satisfaction a of Some x \<Rightarrow> x | None \<Rightarrow> 0),
       trainingDelta = (case adj_training a of Some x \<Rightarrow> x | None \<Rightarrow> 0),
       workHoursDelta = (case adj_workHours a of Some x \<Rightarrow> x | None \<Rightarrow> 0),
       overtimeDelta = (case adj_overtime a of Some x \<Rightarrow> x | None \<Rightarrow> 0),
       sickDaysDelta = (case adj_sickDays a of Some x \<Rightarrow> x | None \<Rightarrow> 0) \<rparr>"

subsection \<open>The comparison\<close>

text \<open>One element of the \<^verbatim>\<open>impactBreakdown\<close> array literal.\<close>

definition impactEntry :: "string \<Rightarrow> real \<Rightarrow> real \<Rightarrow> real \<Rightarrow> ImpactEntry" where
  "impactEntry name adjusted base w =
     \<lparr> factor = name,
       impact = Math_round ((adjusted - base) * w * 10) / 10,
       direction = (if adjusted > base + 0.5 then positive
                    else if adjusted < base - 0.5 then negative else neutral) \<rparr>"

text \<open>
  The body of the timer callback of \<^verbatim>\<open>runSimulation\<close>; the result is the object passed
  to \<^verbatim>\<open>setResult\<close>.  The closure variables \<^verbatim>\<open>baseline\<close> and \<^verbatim>\<open>adjustedValues\<close> are
  the parameters; the memo \<^verbatim>\<open>baselineScore\<close> is \<^verbatim>\<open>computeOverallScore(baseline)\<close>.
  In \<^verbatim>\<open>Math.round((delta / roundedBaselineScore) * 1000) / 10\<close> the multiplication by
  1000, \<^verbatim>\<open>Math.round\<close> and the division by 10 each leave an infinity or \<^verbatim>\<open>NaN\<close>
  as it is.
\<close>

definition runSimulation :: "FactorValues \<Rightarrow> FactorValues \<Rightarrow> ScenarioResult" where
  "runSimulation baseline adjusted =
     (let baselineScore_memo = computeOverallScore baseline;
          newScore_raw = computeOverallScore adjusted;
          baselineFactorScores = factorScores baseline;
          adjustedFactorScores = factorScores adjusted;
          breakdown =
            [ impactEntry ''Satisfaction'' (f_satisfaction adjustedFactorScores)
                (f_satisfaction baselineFactorScores) (f_satisfaction WEIGHTS),
              impactEntry ''Training'' (f_training adjustedFactorScores)
                (f_training baselineFactorScores) (f_training WEIGHTS),
              impactEntry ''Work Hours'' (f_workHours adjustedFactorScores)
                (f_workHours baselineFactorScores) (f_workHours WEIGHTS),
              impactEntry ''Overtime'' (f_overtime adjustedFactorScores)
                (f_overtime baselineFactorScores) (f_overtime WEIGHTS),
              impactEntry ''Sick Days'' (f_sickDays adjustedFactorScores)
                (f_sickDays baselineFactorScores) (f_sickDays WEIGHTS) ];
          roundedBaselineScore = Math_round (baselineScore_memo * 10) / 10;
          roundedNewScore = Math_round (newScore_raw * 10) / 10;
          delta_v = Math_round ((roundedNewScore - roundedBaselineScore) * 10) / 10;
          percentChange_v =
            (if roundedBaselineScore > 0
             then (case js_divide delta_v roundedBaselineScore of
                     Finite q \<Rightarrow> Finite (Math_round (q * 1000) / 10)
                   | Infinity \<Rightarrow> Infinity
                   | NegInfinity \<Rightarrow> NegInfinity
                   | NaN \<Rightarrow> NaN)
             else Finite 0)
      in \<lparr> baselineScore = roundedBaselineScore,
           newScore = roundedNewScore,
           delta = delta_v,
           percentChange = percentChange_v,
           category = (if roundedNewScore \<ge> 75 then High
                       else if roundedNewScore \<ge> 50 then Medium else Low),
           impactBreakdown = breakdown \<rparr>)"

subsection \<open>Names taken from the specification\<close>

text \<open>
  Following the specification's words: \<open>round1\<close> rounds to one decimal place.  The source
  has no such function; it writes \<^verbatim>\<open>Math.round(x * 10) / 10\<close> at each place.
\<close>

definition round1 :: "real \<Rightarrow> real" where
  "round1 x = Math_round (x * 10) / 10"

text \<open>
  Following the specification's words: \<open>clamp(x, domainMin, domainMax)\<close> saturates at the
  boundary of the domain.  The source writes \<^verbatim>\<open>Math.max(lo, Math.min(hi, x))\<close>.
\<close>

definition clamp :: "real \<Rightarrow> real \<Rightarrow> real \<Rightarrow> real" where
  "clamp x lo hi = (if x < lo then lo else if x > hi then hi else x)"

text \<open>
  Following the specification's words, with the direction of a tie left open: \<open>y\<close> is
  \<open>x\<close> rounded to one decimal place when \<open>y\<close> is a multiple of 0.1 and at most 0.05 away
  from \<open>x\<close>.  Away from a tie there is one such \<open>y\<close>; at a tie there are two.
\<close>

definition roundedTo1 :: "real \<Rightarrow> real \<Rightarrow> bool" where
  "roundedTo1 x y \<longleftrightarrow> of_int \<lfloor>y * 10\<rfloor> = y * 10 \<and> \<bar>y - x\<bar> \<le> 1 / 20"

text \<open>
  The five factors in the fixed order satisfaction, training, work hours, overtime, sick
  days; and, in that order, the weighted impacts before rounding: weight times the
  difference of the adjusted and the baseline factor score.
\<close>

definition inOrder :: "Factors \<Rightarrow> real list" where
  "inOrder t = [f_satisfaction t, f_training t, f_workHours t, f_overtime t, f_sickDays t]"

definition weightedImpacts :: "FactorValues \<Rightarrow> FactorValues \<Rightarrow> real list" where
  "weightedImpacts baseline adjusted =
     map2 (\<lambda>w d. w * d) (inOrder WEIGHTS)
       (map2 (\<lambda>x y. x - y) (inOrder (factorScores adjusted)) (inOrder (factorScores baseline)))"

subsection \<open>The percent-change line in binary64 arithmetic\<close>






subsection \<open>Concrete inputs\<close>


text \<open>Every factor score is 75, respectively 50, respectively 0.\<close>

definition balanced75 :: FactorValues where
  "balanced75 = \<lparr> satisfaction = 4, trainingHours = 60, workHours = 50,
                  overtime = 10, sickDays = 5 \<rparr>"

definition balanced50 :: FactorValues where
  "balanced50 = \<lparr> satisfaction = 3, trainingHours = 40, workHours = 60,
                  overtime = 20, sickDays = 10 \<rparr>"


text \<open>Slider positions: one hour less work, ten percent less overtime.\<close>

definition lighterWeek :: Deltas where
  "lighterWeek = \<lparr> satisfactionDelta = 0, trainingDelta = 0, workHoursDelta = - 1,
                   overtimeDelta = - 10, sickDaysDelta = 0 \<rparr>"

text \<open>Slider positions: twenty more training hours, four more work hours.\<close>

definition trainMoreWorkMore :: Deltas where
  "trainMoreWorkMore = \<lparr> satisfactionDelta = 0, trainingDelta = 20, workHoursDelta = 4,
                         overtimeDelta = 0, sickDaysDelta = 0 \<rparr>"


section \<open>Properties\<close>

lemmas eval_defs = runSimulation_def adjustedValues_def applyPreset_def trainingBoost_def
  Math_round_def computeOverallScore_def factorScores_def computeFactorScore_def baseline0_def
  WEIGHTS_def impactEntry_def js_divide_def Let_def


subsection \<open>Auxiliary facts\<close>


lemma computeFactorScore_ge0: "0 \<le> computeFactorScore fac v"
  by (simp add: computeFactorScore_def Let_def)

lemma computeFactorScore_le100: "computeFactorScore fac v \<le> 100"
  by (simp add: computeFactorScore_def Let_def)

lemma computeOverallScore_sum:
  "computeOverallScore vals =
     computeFactorScore ''satisfaction'' (satisfaction vals) * (3 / 10) +
     computeFactorScore ''training'' (trainingHours vals) * (1 / 4) +
     computeFactorScore ''workHours'' (workHours vals) * (9 / 50) +
     computeFactorScore ''overtime'' (overtime vals) * (3 / 20) +
     computeFactorScore ''sickDays'' (sickDays vals) * (3 / 25)"
  by (simp add: computeOverallScore_def factorScores_def WEIGHTS_def Let_def)

lemma computeOverallScore_ge0: "0 \<le> computeOverallScore vals"
  using computeFactorScore_ge0 [of "''satisfaction''" "satisfaction vals"]
    computeFactorScore_ge0 [of "''training''" "trainingHours vals"]
    computeFactorScore_ge0 [of "''workHours''" "workHours vals"]
    computeFactorScore_ge0 [of "''overtime''" "overtime vals"]
    computeFactorScore_ge0 [of "''sickDays''" "sickDays vals"]
  unfolding computeOverallScore_sum by linarith

lemma computeOverallScore_le100: "computeOverallScore vals \<le> 100"
  using computeFactorScore_le100 [of "''satisfaction''" "satisfaction vals"]
    computeFactorScore_le100 [of "''training''" "trainingHours vals"]
    computeFactorScore_le100 [of "''workHours''" "workHours vals"]
    computeFactorScore_le100 [of "''overtime''" "overtime vals"]
    computeFactorScore_le100 [of "''sickDays''" "sickDays vals"]
  unfolding computeOverallScore_sum by linarith

lemma satisfaction_score_mono:
  "s1 \<le> s2 \<Longrightarrow>
   computeFactorScore ''satisfaction'' s1 \<le> computeFactorScore ''satisfaction'' s2"
  by (simp add: computeFactorScore_def max_def min_def)

lemma training_score_mono:
  "t1 \<le> t2 \<Longrightarrow> computeFactorScore ''training'' t1 \<le> computeFactorScore ''training'' t2"
  by (simp add: computeFactorScore_def max_def min_def)

lemma overtime_score_antimono:
  "o1 \<le> o2 \<Longrightarrow> computeFactorScore ''overtime'' o2 \<le> computeFactorScore ''overtime'' o1"
  by (simp add: computeFactorScore_def max_def min_def)

lemma sickDays_score_antimono:
  "d1 \<le> d2 \<Longrightarrow> computeFactorScore ''sickDays'' d2 \<le> computeFactorScore ''sickDays'' d1"
  by (simp add: computeFactorScore_def max_def min_def)

lemma workHours_score_40: "computeFactorScore ''workHours'' 40 = 100"
  by (simp add: computeFactorScore_def)

lemma workHours_score_lt: "v \<noteq> 40 \<Longrightarrow> computeFactorScore ''workHours'' v < 100"
  by (simp add: computeFactorScore_def Let_def max_def min_def)


lemma Math_round_ge_1: "1 / 2 \<le> x \<Longrightarrow> 1 \<le> Math_round x"
proof -
  assume "1 / 2 \<le> x"
  then have "(1::int) \<le> \<lfloor>x + 1 / 2\<rfloor>"
    by (simp add: le_floor_iff)
  then show ?thesis
    unfolding Math_round_def by linarith
qed

lemma Math_round_le_minus_1: "x < - (1 / 2) \<Longrightarrow> Math_round x \<le> - 1"
proof -
  assume "x < - (1 / 2)"
  then have "\<lfloor>x + 1 / 2\<rfloor> < (0::int)"
    by (simp add: floor_less_iff)
  then have "\<lfloor>x + 1 / 2\<rfloor> \<le> (- 1::int)"
    by linarith
  then show ?thesis
    unfolding Math_round_def by linarith
qed



lemma max_min_clamp: "lo \<le> hi \<Longrightarrow> max lo (min hi x) = clamp x lo hi"
  by (simp add: clamp_def max_def min_def)

lemma impactEntry_positive:
  assumes w: "3 / 25 \<le> w"
    and dir: "direction (impactEntry n adj base w) = positive"
  shows "1 / 10 \<le> impact (impactEntry n adj base w)"
proof -
  from dir have gt: "1 / 2 < adj - base"
    by (simp add: impactEntry_def split: if_splits)
  then have "(adj - base) * (3 / 25) \<le> (adj - base) * w"
    using w by (intro mult_left_mono) simp_all
  with gt have "1 / 2 \<le> (adj - base) * w * 10"
    by simp
  from Math_round_ge_1 [OF this] show ?thesis
    by (simp add: impactEntry_def)
qed

lemma impactEntry_negative:
  assumes w: "3 / 25 \<le> w"
    and dir: "direction (impactEntry n adj base w) = negative"
  shows "impact (impactEntry n adj base w) \<le> - (1 / 10)"
proof -
  from dir have lt: "adj - base < - (1 / 2)"
    by (simp add: impactEntry_def split: if_splits)
  then have "(adj - base) * w \<le> (adj - base) * (3 / 25)"
    using w by (intro mult_left_mono_neg) simp_all
  with lt have "(adj - base) * w * 10 < - (1 / 2)"
    by simp
  from Math_round_le_minus_1 [OF this] show ?thesis
    by (simp add: impactEntry_def)
qed


lemma roundedTo1_Math_round: "roundedTo1 x (Math_round (x * 10) / 10)"
proof -
  define k where "k = \<lfloor>x * 10 + 1 / 2\<rfloor>"
  have lo: "of_int k \<le> x * 10 + 1 / 2"
    unfolding k_def by (rule of_int_floor_le)
  have hi: "x * 10 + 1 / 2 < of_int k + 1"
    unfolding k_def by linarith
  from lo hi have near: "\<bar>real_of_int k / 10 - x\<bar> \<le> 1 / 20"
    by linarith
  have grid: "of_int \<lfloor>real_of_int k / 10 * 10\<rfloor> = real_of_int k / 10 * 10"
    by simp
  from grid near show ?thesis
    unfolding roundedTo1_def Math_round_def k_def by blast
qed

lemma impact_roundedTo1: "roundedTo1 (w * (x - y)) (impact (impactEntry n x y w))"
proof -
  have e: "w * (x - y) * 10 = (x - y) * w * 10"
    by simp
  have "roundedTo1 (w * (x - y)) (Math_round ((x - y) * w * 10) / 10)"
    using roundedTo1_Math_round [of "w * (x - y)"] unfolding e .
  then show ?thesis
    unfolding impactEntry_def by (simp only: ImpactEntry.simps)
qed

lemma percentChange_field:
  "percentChange (runSimulation b a) =
     (if baselineScore (runSimulation b a) > 0
      then Finite (Math_round
             (delta (runSimulation b a) / baselineScore (runSimulation b a) * 1000) / 10)
      else Finite 0)"
  by (simp add: runSimulation_def js_divide_def Let_def)








lemma tie_both_neighbours:
  "roundedTo1 (- 30.1 / 68.8 * 100) (- 43.8) \<and> roundedTo1 (- 30.1 / 68.8 * 100) (- 43.7)"
  by (simp add: roundedTo1_def)

subsection \<open>The two concrete scenarios\<close>

text \<open>
  C1, as the specification states it: the initial baseline has an overall score of about
  70.0875 that rounds to 70.1.  This fails: the overall score is not within 1 of 70.0875,
  and its rounding is not 70.1.
\<close>

theorem stated_baseline_total_counterexample:
  "\<not> (\<bar>computeOverallScore baseline0 - 70.0875\<bar> < 1 \<and>
      round1 (computeOverallScore baseline0) = 70.1)"
  by (simp add: round1_def eval_defs)

text \<open>
  C1, amended: for the initial baseline the factor scores are 70, 43.75, 92.5, 75 and 75,
  as stated; their weighted sum is 68.8375, which rounds to 68.8.
\<close>

theorem baseline_scenario:
  "factorScores baseline0 =
     \<lparr> f_satisfaction = 70.0, f_training = 43.75, f_workHours = 92.5,
       f_overtime = 75.0, f_sickDays = 75.0 \<rparr> \<and>
   computeOverallScore baseline0 = 68.8375 \<and>
   round1 (computeOverallScore baseline0) = 68.8"
  by (simp add: round1_def eval_defs)

text \<open>
  C2, as the specification states it: after "Training Boost" the new score is 74.3 and the
  category is Medium.  Neither holds.
\<close>

theorem stated_boost_result_counterexample:
  "\<not> (newScore (runSimulation baseline0 (adjustedValues baseline0 (applyPreset trainingBoost)))
        = 74.3 \<and>
      category (runSimulation baseline0 (adjustedValues baseline0 (applyPreset trainingBoost)))
        = Medium)"
  by (simp add: eval_defs)

text \<open>
  C2, amended: "Training Boost" on the initial baseline gives 55 training hours and a
  training score of 68.75, as stated; the adjusted overall score is 75.0875, the new score
  75.1, the baseline score 68.8, the delta 6.3 and the category High.
\<close>

theorem training_boost_scenario:
  "trainingHours (adjustedValues baseline0 (applyPreset trainingBoost)) = 55 \<and>
   f_training (factorScores (adjustedValues baseline0 (applyPreset trainingBoost))) = 68.75 \<and>
   computeOverallScore (adjustedValues baseline0 (applyPreset trainingBoost)) = 75.0875 \<and>
   newScore (runSimulation baseline0 (adjustedValues baseline0 (applyPreset trainingBoost)))
     = 75.1 \<and>
   baselineScore (runSimulation baseline0 (adjustedValues baseline0 (applyPreset trainingBoost)))
     = 68.8 \<and>
   delta (runSimulation baseline0 (adjustedValues baseline0 (applyPreset trainingBoost)))
     = 6.3 \<and>
   category (runSimulation baseline0 (adjustedValues baseline0 (applyPreset trainingBoost)))
     = High"
  by (simp add: eval_defs)

subsection \<open>Bounds and monotonicity\<close>

text \<open>
  C3: whatever the factor name and the value, the factor score lies between 0 and 100;
  whatever the factor values, the overall score lies between 0 and 100.  Both functions
  are total, so there is no input on which they fail.
\<close>

theorem scores_bounded:
  "0 \<le> computeFactorScore fac v \<and> computeFactorScore fac v \<le> 100 \<and>
   0 \<le> computeOverallScore vals \<and> computeOverallScore vals \<le> 100"
  by (simp add: computeFactorScore_ge0 computeFactorScore_le100
      computeOverallScore_ge0 computeOverallScore_le100)

text \<open>
  C4: with the other four fields fixed, the overall score does not decrease when
  satisfaction or training hours grow, and does not increase when overtime or sick days
  grow; the work-hours score is largest at 40 and only there.
\<close>

theorem overallScore_monotone:
  "(s1 \<le> s2 \<longrightarrow> computeOverallScore (vals\<lparr>satisfaction := s1\<rparr>)
        \<le> computeOverallScore (vals\<lparr>satisfaction := s2\<rparr>)) \<and>
   (t1 \<le> t2 \<longrightarrow> computeOverallScore (vals\<lparr>trainingHours := t1\<rparr>)
        \<le> computeOverallScore (vals\<lparr>trainingHours := t2\<rparr>)) \<and>
   (o1 \<le> o2 \<longrightarrow> computeOverallScore (vals\<lparr>overtime := o2\<rparr>)
        \<le> computeOverallScore (vals\<lparr>overtime := o1\<rparr>)) \<and>
   (d1 \<le> d2 \<longrightarrow> computeOverallScore (vals\<lparr>sickDays := d2\<rparr>)
        \<le> computeOverallScore (vals\<lparr>sickDays := d1\<rparr>)) \<and>
   (\<forall>v. computeFactorScore ''workHours'' v \<le> computeFactorScore ''workHours'' 40) \<and>
   (\<forall>v. computeFactorScore ''workHours'' v = computeFactorScore ''workHours'' 40
        \<longleftrightarrow> v = 40)"
proof (intro conjI impI allI)
  assume "s1 \<le> s2"
  from satisfaction_score_mono [OF this]
  show "computeOverallScore (vals\<lparr>satisfaction := s1\<rparr>)
        \<le> computeOverallScore (vals\<lparr>satisfaction := s2\<rparr>)"
    by (simp add: computeOverallScore_sum)
next
  assume "t1 \<le> t2"
  from training_score_mono [OF this]
  show "computeOverallScore (vals\<lparr>trainingHours := t1\<rparr>)
        \<le> computeOverallScore (vals\<lparr>trainingHours := t2\<rparr>)"
    by (simp add: computeOverallScore_sum)
next
  assume "o1 \<le> o2"
  from overtime_score_antimono [OF this]
  show "computeOverallScore (vals\<lparr>overtime := o2\<rparr>)
        \<le> computeOverallScore (vals\<lparr>overtime := o1\<rparr>)"
    by (simp add: computeOverallScore_sum)
next
  assume "d1 \<le> d2"
  from sickDays_score_antimono [OF this]
  show "computeOverallScore (vals\<lparr>sickDays := d2\<rparr>)
        \<le> computeOverallScore (vals\<lparr>sickDays := d1\<rparr>)"
    by (simp add: computeOverallScore_sum)
next
  fix v :: real
  show "computeFactorScore ''workHours'' v \<le> computeFactorScore ''workHours'' 40"
    by (simp add: workHours_score_40 computeFactorScore_le100)
next
  fix v :: real
  show "computeFactorScore ''workHours'' v = computeFactorScore ''workHours'' 40
        \<longleftrightarrow> v = 40"
    using workHours_score_lt [of v] by (cases "v = 40") (simp_all add: workHours_score_40)
qed

text \<open>
  The monotonicity theorem at the initial baseline: satisfaction 3 and 4, training 35 and
  55, overtime 10 and 20, sick days 5 and 8, and work hours 43 against 40.
\<close>

theorem overallScore_monotone_witness:
  "(3::real) \<le> 4 \<and>
   computeOverallScore (baseline0\<lparr>satisfaction := 3\<rparr>)
     \<le> computeOverallScore (baseline0\<lparr>satisfaction := 4\<rparr>) \<and>
   (35::real) \<le> 55 \<and>
   computeOverallScore (baseline0\<lparr>trainingHours := 35\<rparr>)
     \<le> computeOverallScore (baseline0\<lparr>trainingHours := 55\<rparr>) \<and>
   (10::real) \<le> 20 \<and>
   computeOverallScore (baseline0\<lparr>overtime := 20\<rparr>)
     \<le> computeOverallScore (baseline0\<lparr>overtime := 10\<rparr>) \<and>
   (5::real) \<le> 8 \<and>
   computeOverallScore (baseline0\<lparr>sickDays := 8\<rparr>)
     \<le> computeOverallScore (baseline0\<lparr>sickDays := 5\<rparr>) \<and>
   computeFactorScore ''workHours'' 43 \<le> computeFactorScore ''workHours'' 40 \<and>
   computeFactorScore ''workHours'' 43 \<noteq> computeFactorScore ''workHours'' 40"
  using overallScore_monotone [where ?s1.0 = 3 and ?s2.0 = 4 and vals = baseline0
      and ?t1.0 = 35 and ?t2.0 = 55 and ?o1.0 = 10 and ?o2.0 = 20 and ?d1.0 = 5 and ?d2.0 = 8]
  by simp

subsection \<open>The comparison result\<close>

text \<open>
  C5: the category is High exactly when the rounded new score is at least 75, Medium exactly
  when it is at least 50 and below 75, Low exactly when it is below 50; a new score of
  exactly 75 is High and one of exactly 50 is Medium.
\<close>

theorem category_bands:
  "(category (runSimulation b a) = High \<longleftrightarrow> newScore (runSimulation b a) \<ge> 75) \<and>
   (category (runSimulation b a) = Medium \<longleftrightarrow>
      50 \<le> newScore (runSimulation b a) \<and> newScore (runSimulation b a) < 75) \<and>
   (category (runSimulation b a) = Low \<longleftrightarrow> newScore (runSimulation b a) < 50) \<and>
   (newScore (runSimulation b a) = 75 \<longrightarrow> category (runSimulation b a) = High) \<and>
   (newScore (runSimulation b a) = 50 \<longrightarrow> category (runSimulation b a) = Medium)"
  by (simp add: runSimulation_def Let_def)

text \<open>Both boundary scores occur: adjusted values whose new score is exactly 75, and 50.\<close>

theorem category_bands_witness:
  "newScore (runSimulation baseline0 balanced75) = 75 \<and>
   category (runSimulation baseline0 balanced75) = High \<and>
   newScore (runSimulation baseline0 balanced50) = 50 \<and>
   category (runSimulation baseline0 balanced50) = Medium"
proof -
  have h75: "newScore (runSimulation baseline0 balanced75) = 75"
    by (simp add: balanced75_def eval_defs)
  have h50: "newScore (runSimulation baseline0 balanced50) = 50"
    by (simp add: balanced50_def eval_defs)
  show ?thesis
    using category_bands [of baseline0 balanced75] category_bands [of baseline0 balanced50]
      h75 h50
    by simp
qed




text \<open>
  C7: comparing any factor values with themselves gives delta 0 and percent change 0, and
  each of the five impact entries, in order, has direction neutral and impact 0.
\<close>

theorem zero_delta_identity:
  "delta (runSimulation b b) = 0 \<and> percentChange (runSimulation b b) = Finite 0 \<and>
   map direction (impactBreakdown (runSimulation b b)) =
     [neutral, neutral, neutral, neutral, neutral] \<and>
   map impact (impactBreakdown (runSimulation b b)) = [0, 0, 0, 0, 0]"
proof -
  have d: "delta (runSimulation b b) = 0"
    by (simp add: runSimulation_def Math_round_def Let_def)
  have p: "percentChange (runSimulation b b) = Finite 0"
    unfolding percentChange_field d by (simp add: Math_round_def)
  have dirs: "map direction (impactBreakdown (runSimulation b b)) =
     [neutral, neutral, neutral, neutral, neutral]"
    by (simp add: runSimulation_def impactEntry_def Let_def)
  have imps: "map impact (impactBreakdown (runSimulation b b)) = [0, 0, 0, 0, 0]"
    by (simp add: runSimulation_def impactEntry_def Math_round_def Let_def)
  from d p dirs imps show ?thesis
    by blast
qed

text \<open>
  C8: satisfaction, training hours, work hours and sick days are the baseline plus the
  delta, clamped to [1,5], [0,100], [20,60] and [0,20]; overtime is the baseline plus the
  baseline times delta / 100, clamped to [0,40].  An overtime delta of 1000 percent on the
  initial baseline's 10 hours gives 40, whatever the other four deltas are.
\<close>

theorem adjustment_rules:
  "satisfaction (adjustedValues b d) = clamp (satisfaction b + satisfactionDelta d) 1 5 \<and>
   trainingHours (adjustedValues b d) = clamp (trainingHours b + trainingDelta d) 0 100 \<and>
   workHours (adjustedValues b d) = clamp (workHours b + workHoursDelta d) 20 60 \<and>
   sickDays (adjustedValues b d) = clamp (sickDays b + sickDaysDelta d) 0 20 \<and>
   overtime (adjustedValues b d) =
     clamp (overtime b + overtime b * (overtimeDelta d / 100)) 0 40 \<and>
   overtime baseline0 = 10 \<and>
   overtime (adjustedValues baseline0 (d\<lparr>overtimeDelta := 1000\<rparr>)) = 40"
  by (simp add: adjustedValues_def max_min_clamp baseline0_def)

text \<open>
  C9: the baseline score is the rounding of the baseline's overall score, the new score the
  rounding of the adjusted overall score, and the delta the rounding of the difference of
  these two rounded scores.  That is not the rounding of the unrounded difference: with one
  work hour and ten percent of overtime less than the initial baseline, the delta is 0.9
  while the unrounded difference rounds to 0.8.
\<close>

theorem rounding_order:
  "baselineScore (runSimulation b a) = round1 (computeOverallScore b) \<and>
   newScore (runSimulation b a) = round1 (computeOverallScore a) \<and>
   delta (runSimulation b a) =
     round1 (newScore (runSimulation b a) - baselineScore (runSimulation b a)) \<and>
   delta (runSimulation baseline0 (adjustedValues baseline0 lighterWeek)) = 0.9 \<and>
   round1 (computeOverallScore (adjustedValues baseline0 lighterWeek)
           - computeOverallScore baseline0) = 0.8"
  by (simp add: runSimulation_def round1_def Let_def) (simp add: lighterWeek_def eval_defs)

text \<open>
  C10: the five weighted impacts before rounding, weight times the difference of the
  adjusted and the baseline factor score, add up to the difference of the two overall
  scores; the result has five impact entries, in the same order, and the impact of each is
  its weighted impact rounded to one decimal place; and in every entry, direction positive
  comes with an impact of at least 0.1 and direction negative with an impact of at most
  -0.1.
\<close>

theorem impact_decomposition:
  "sum_list (weightedImpacts b a) = computeOverallScore a - computeOverallScore b \<and>
   map factor (impactBreakdown (runSimulation b a)) =
     [''Satisfaction'', ''Training'', ''Work Hours'', ''Overtime'', ''Sick Days''] \<and>
   list_all2 roundedTo1 (weightedImpacts b a)
     (map impact (impactBreakdown (runSimulation b a))) \<and>
   (\<forall>e \<in> set (impactBreakdown (runSimulation b a)).
      (direction e = positive \<longrightarrow> impact e \<ge> 0.1) \<and>
      (direction e = negative \<longrightarrow> impact e \<le> - 0.1))"
proof (intro conjI ballI)
  show "sum_list (weightedImpacts b a) = computeOverallScore a - computeOverallScore b"
    by (simp add: weightedImpacts_def inOrder_def computeOverallScore_def Let_def
        algebra_simps)
next
  show "map factor (impactBreakdown (runSimulation b a)) =
     [''Satisfaction'', ''Training'', ''Work Hours'', ''Overtime'', ''Sick Days'']"
    by (simp add: runSimulation_def impactEntry_def Let_def)
next
  show "list_all2 roundedTo1 (weightedImpacts b a)
     (map impact (impactBreakdown (runSimulation b a)))"
    by (simp add: weightedImpacts_def inOrder_def runSimulation_def Let_def
        impact_roundedTo1)
next
  fix e
  assume "e \<in> set (impactBreakdown (runSimulation b a))"
  then obtain n x y w where e: "e = impactEntry n x y w" and w: "3 / 25 \<le> w"
    by (auto simp add: runSimulation_def Let_def WEIGHTS_def)
  show "direction e = positive \<longrightarrow> impact e \<ge> 0.1"
    using impactEntry_positive [OF w, of n x y] by (simp add: e)
next
  fix e
  assume "e \<in> set (impactBreakdown (runSimulation b a))"
  then obtain n x y w where e: "e = impactEntry n x y w" and w: "3 / 25 \<le> w"
    by (auto simp add: runSimulation_def Let_def WEIGHTS_def)
  show "direction e = negative \<longrightarrow> impact e \<le> - 0.1"
    using impactEntry_negative [OF w, of n x y] by (simp add: e)
qed

text \<open>
  With twenty more training hours and four more work hours than the initial baseline, the
  weighted impacts are 0, 6.25, -1.8, 0 and 0, which add up to the score difference 4.45;
  the impacts are 0, 6.3, -1.8, 0 and 0; the training entry is positive and the work-hours
  entry negative.
\<close>

theorem impact_decomposition_witness:
  "weightedImpacts baseline0 (adjustedValues baseline0 trainMoreWorkMore)
     = [0, 6.25, - 1.8, 0, 0] \<and>
   computeOverallScore (adjustedValues baseline0 trainMoreWorkMore)
     - computeOverallScore baseline0 = 4.45 \<and>
   map impact (impactBreakdown
     (runSimulation baseline0 (adjustedValues baseline0 trainMoreWorkMore)))
     = [0, 6.3, - 1.8, 0, 0] \<and>
   map direction (impactBreakdown
     (runSimulation baseline0 (adjustedValues baseline0 trainMoreWorkMore)))
     = [neutral, positive, negative, neutral, neutral] \<and>
   impactBreakdown (runSimulation baseline0 (adjustedValues baseline0 trainMoreWorkMore)) ! 1
     \<in> set (impactBreakdown
          (runSimulation baseline0 (adjustedValues baseline0 trainMoreWorkMore))) \<and>
   impact (impactBreakdown
     (runSimulation baseline0 (adjustedValues baseline0 trainMoreWorkMore)) ! 1) \<ge> 0.1 \<and>
   impactBreakdown (runSimulation baseline0 (adjustedValues baseline0 trainMoreWorkMore)) ! 2
     \<in> set (impactBreakdown
          (runSimulation baseline0 (adjustedValues baseline0 trainMoreWorkMore))) \<and>
   impact (impactBreakdown
     (runSimulation baseline0 (adjustedValues baseline0 trainMoreWorkMore)) ! 2) \<le> - 0.1"
proof -
  let ?a = "adjustedValues baseline0 trainMoreWorkMore"
  let ?r = "runSimulation baseline0 ?a"
  have wi: "weightedImpacts baseline0 ?a = [0, 6.25, - 1.8, 0, 0]"
    by (simp add: weightedImpacts_def inOrder_def trainMoreWorkMore_def eval_defs)
  have im: "map impact (impactBreakdown ?r) = [0, 6.3, - 1.8, 0, 0]"
    by (simp add: trainMoreWorkMore_def eval_defs)
  have di: "map direction (impactBreakdown ?r)
     = [neutral, positive, negative, neutral, neutral]"
    by (simp add: trainMoreWorkMore_def eval_defs)
  have len: "length (impactBreakdown ?r) = 5"
    by (simp add: runSimulation_def Let_def)
  have m1: "impactBreakdown ?r ! 1 \<in> set (impactBreakdown ?r)"
    using len by (intro nth_mem) simp
  have m2: "impactBreakdown ?r ! 2 \<in> set (impactBreakdown ?r)"
    using len by (intro nth_mem) simp
  have d1: "direction (impactBreakdown ?r ! 1) = positive"
    by (simp add: trainMoreWorkMore_def eval_defs)
  have d2: "direction (impactBreakdown ?r ! 2) = negative"
    by (simp add: trainMoreWorkMore_def eval_defs)
  note inst = impact_decomposition [of baseline0 ?a]
  from inst wi have s: "computeOverallScore ?a - computeOverallScore baseline0 = 4.45"
    by simp
  from inst have all: "\<forall>e \<in> set (impactBreakdown ?r).
      (direction e = positive \<longrightarrow> impact e \<ge> 0.1) \<and>
      (direction e = negative \<longrightarrow> impact e \<le> - 0.1)"
    by blast
  from all m1 d1 have i1: "impact (impactBreakdown ?r ! 1) \<ge> 0.1"
    by blast
  from all m2 d2 have i2: "impact (impactBreakdown ?r ! 2) \<le> - 0.1"
    by blast
  from wi s im di m1 i1 m2 i2 show ?thesis
    by blast
qed

end
